theory Spec2Isabelle
  imports Main
begin

section \<open>The header FailingApp.h as data\<close>

text \<open>
  The unit under verification is \<^verbatim>\<open>Exceptions/.NET/FailingApp/FailingApp.h\<close>: one
  conditional block that binds the macro \<^verbatim>\<open>FAILINGAPP_API\<close>, followed by three
  declarations that carry that macro. The header has no function body, so what can be
  verified is what the preprocessor does with it: which replacement list the macro is
  bound to, and which tokens the three declarations are after macro replacement.

  Tokens are kept as strings. A macro table lists object-like macros, each name with its
  replacement list, the first entry for a name being the one in force; the build
  configuration is the table the preprocessor starts with (the symbols given on the
  command line).
\<close>

type_synonym token = string
type_synonym macros = "(string \<times> token list) list"

text \<open>The types that occur in the header: \<^verbatim>\<open>int\<close>, and \<^verbatim>\<open>void\<close>.\<close>

datatype ctype = T_int | T_void

datatype access = Public | Protected | Private

text \<open>
  A class member. A body is \<open>None\<close> when the member is only declared
  (\<^verbatim>\<open>CFailingApp(void);\<close>) and \<open>Some ts\<close> when it is defined in place. The
  parameter list \<^verbatim>\<open>(void)\<close> is the C++ spelling of the empty parameter list.
\<close>

datatype member =
    Constructor "ctype list" "token list option"
  | Destructor "token list option"
  | Field ctype string
  | Method ctype string "ctype list" "token list option"

text \<open>
  A declaration at namespace scope. The type parameter is what stands in the attribute
  position: the macro name before preprocessing, its replacement list afterwards.
\<close>

datatype 'a decl =
    Class_decl (decl_attr: 'a) (decl_name: string) (members: "(access \<times> member) list")
  | Var_decl (decl_attr: 'a) (decl_name: string) (is_extern: bool) (is_const: bool)
      (var_type: ctype) (initialiser: "token list option")
  | Fun_decl (decl_attr: 'a) (decl_name: string) (return_type: ctype)
      (params: "ctype list") (fun_body: "token list option")

text \<open>
  The lines of a header. A conditional block holds the lines of its two branches; the
  header nests no conditional, so the branches are plain directives.
\<close>

datatype directive =
    Define string "token list"
  | Undef string
  | Error_line string
  | Declare "string decl"

datatype line =
    Ifdef string "directive list" "directive list"
  | Plain directive

subsection \<open>The text of the header\<close>

definition declspec :: "token \<Rightarrow> token list" where
  "declspec a = [''__declspec'', ''('', a, '')'']"

text \<open>Lines 7 to 11: \<^verbatim>\<open>#ifdef FAILINGAPP_EXPORTS ... #else ... #endif\<close>.\<close>

definition linkage_block :: line where
  "linkage_block =
     Ifdef ''FAILINGAPP_EXPORTS''
       [Define ''FAILINGAPP_API'' (declspec ''dllexport'')]
       [Define ''FAILINGAPP_API'' (declspec ''dllimport'')]"

text \<open>Lines 14 to 18: \<^verbatim>\<open>class FAILINGAPP_API CFailingApp { public: CFailingApp(void); };\<close>\<close>

definition CFailingApp :: "string decl" where
  "CFailingApp =
     Class_decl ''FAILINGAPP_API'' ''CFailingApp'' [(Public, Constructor [] None)]"

text \<open>Line 20: \<^verbatim>\<open>extern FAILINGAPP_API int nFailingApp;\<close>\<close>

definition nFailingApp :: "string decl" where
  "nFailingApp = Var_decl ''FAILINGAPP_API'' ''nFailingApp'' True False T_int None"

text \<open>Line 22: \<^verbatim>\<open>FAILINGAPP_API int fnFailingApp(void);\<close>\<close>

definition fnFailingApp :: "string decl" where
  "fnFailingApp = Fun_decl ''FAILINGAPP_API'' ''fnFailingApp'' T_int [] None"

definition FailingApp_h :: "line list" where
  "FailingApp_h =
     [linkage_block, Plain (Declare CFailingApp), Plain (Declare nFailingApp),
      Plain (Declare fnFailingApp)]"


section \<open>The tokens of a declaration\<close>

text \<open>
  A declaration written out as the tokens of its source line. The attribute is a token
  list: the macro name alone in the header, its replacement after preprocessing. An
  empty parameter list is written \<^verbatim>\<open>(void)\<close>, as the header does.
\<close>

fun render_type :: "ctype \<Rightarrow> token" where
  "render_type T_int = ''int''"
| "render_type T_void = ''void''"

fun render_params :: "ctype list \<Rightarrow> token list" where
  "render_params [] = [''void'']"
| "render_params [t] = [render_type t]"
| "render_params (t # ts) = render_type t # '','' # render_params ts"

fun render_body :: "token list option \<Rightarrow> token list" where
  "render_body None = ['';'']"
| "render_body (Some b) = ''{'' # b @ [''}'']"

fun render_access :: "access \<Rightarrow> token list" where
  "render_access Public = [''public'', '':'']"
| "render_access Protected = [''protected'', '':'']"
| "render_access Private = [''private'', '':'']"

fun render_member :: "string \<Rightarrow> member \<Rightarrow> token list" where
  "render_member c (Constructor ps b) =
     [c, ''(''] @ render_params ps @ ['')''] @ render_body b"
| "render_member c (Destructor b) = [''~'', c, ''('', '')''] @ render_body b"
| "render_member c (Field t n) = [render_type t, n, '';'']"
| "render_member c (Method t n ps b) =
     [render_type t, n, ''(''] @ render_params ps @ ['')''] @ render_body b"

fun render :: "token list decl \<Rightarrow> token list" where
  "render (Class_decl a n ms) =
     [''class''] @ a @ [n, ''{''] @
     concat (map (\<lambda>(acc, m). render_access acc @ render_member n m) ms) @ [''}'', '';'']"
| "render (Var_decl a n e c t i) =
     (if e then [''extern''] else []) @ a @ (if c then [''const''] else []) @
     [render_type t, n] @ (case i of None \<Rightarrow> [] | Some v \<Rightarrow> ''='' # v) @ ['';'']"
| "render (Fun_decl a n t ps b) =
     a @ [render_type t, n, ''(''] @ render_params ps @ ['')''] @ render_body b"

text \<open>The source line of a declaration of the header: the attribute is the macro name.\<close>

definition source :: "string decl \<Rightarrow> token list" where
  "source d = render (map_decl (\<lambda>a. [a]) d)"


section \<open>Preprocessing the header\<close>

text \<open>
  Macro replacement of a token list. A token that names a macro is replaced by its
  replacement list, which is scanned again for further macros; while the replacement of
  a macro is scanned, that macro itself is not replaced again. A token that names no
  macro stays.
\<close>

definition drop_macro :: "string \<Rightarrow> macros \<Rightarrow> macros" where
  "drop_macro m ms = filter (\<lambda>(k, v). k \<noteq> m) ms"

function expand :: "macros \<Rightarrow> token list \<Rightarrow> token list" where
  "expand ms [] = []"
| "expand ms (t # ts) =
     (case map_of ms t of
        None \<Rightarrow> [t]
      | Some r \<Rightarrow> expand (drop_macro t ms) r) @ expand ms ts"
  by pat_completeness auto
termination
proof (relation "measures [\<lambda>(ms, ts). length ms, \<lambda>(ms, ts). length ts]")
  show "wf (measures [\<lambda>(ms, ts). length ms, \<lambda>(ms, ts). length ts])"
    by simp
next
  fix ms :: macros and t :: token and ts r :: "token list"
  assume bound: "map_of ms t = Some r"
  then have "(t, r) \<in> set ms"
    by (rule map_of_SomeD)
  moreover have "\<not> (case (t, r) of (k, v) \<Rightarrow> k \<noteq> t)"
    by simp
  ultimately have "length (drop_macro t ms) < length ms"
    unfolding drop_macro_def by (rule length_filter_less)
  then show "((drop_macro t ms, r), (ms, t # ts))
      \<in> measures [\<lambda>(ms, ts). length ms, \<lambda>(ms, ts). length ts]"
    by simp
next
  fix ms :: macros and t :: token and ts :: "token list"
  show "((ms, ts), (ms, t # ts))
      \<in> measures [\<lambda>(ms, ts). length ms, \<lambda>(ms, ts). length ts]"
    by simp
qed

text \<open>
  The preprocessor runs over the lines with a macro table and the lines it has put out
  so far. \<^verbatim>\<open>#define\<close> binds a name, replacing an earlier binding (the compiler the
  header is written for reports a redefinition as a warning and goes on with the new
  replacement list); \<^verbatim>\<open>#undef\<close> removes a binding; \<^verbatim>\<open>#error\<close> stops the
  translation. The tokens of a declaration are put out after macro replacement under the
  table in force at that line. Whether the tokens put out are still a well-formed
  declaration is decided by the phases after preprocessing, which are not part of this
  model.
\<close>

datatype error = Error_directive string

record pp =
  macros :: macros
  emitted :: "token list list"

definition start :: "macros \<Rightarrow> pp" where
  "start cfg = \<lparr>macros = cfg, emitted = []\<rparr>"

fun directive_step :: "directive \<Rightarrow> pp \<Rightarrow> error + pp" where
  "directive_step (Define m ts) s = Inr (s\<lparr>macros := (m, ts) # drop_macro m (macros s)\<rparr>)"
| "directive_step (Undef m) s = Inr (s\<lparr>macros := drop_macro m (macros s)\<rparr>)"
| "directive_step (Error_line msg) s = Inl (Error_directive msg)"
| "directive_step (Declare d) s =
     Inr (s\<lparr>emitted := emitted s @ [expand (macros s) (source d)]\<rparr>)"

fun directives :: "directive list \<Rightarrow> pp \<Rightarrow> error + pp" where
  "directives [] s = Inr s"
| "directives (d # ds) s =
     (case directive_step d s of Inl e \<Rightarrow> Inl e | Inr s' \<Rightarrow> directives ds s')"

fun line_step :: "line \<Rightarrow> pp \<Rightarrow> error + pp" where
  "line_step (Ifdef m yes no) s =
     directives (if map_of (macros s) m \<noteq> None then yes else no) s"
| "line_step (Plain d) s = directive_step d s"

fun lines :: "line list \<Rightarrow> pp \<Rightarrow> error + pp" where
  "lines [] s = Inr s"
| "lines (l # ls) s =
     (case line_step l s of Inl e \<Rightarrow> Inl e | Inr s' \<Rightarrow> lines ls s')"

definition preprocess :: "macros \<Rightarrow> error + pp" where
  "preprocess cfg = lines FailingApp_h (start cfg)"

text \<open>
  The replacement list of \<^verbatim>\<open>FAILINGAPP_API\<close> once the conditional block has been
  processed, under the build configuration \<open>cfg\<close>.
\<close>

definition FAILINGAPP_API :: "macros \<Rightarrow> token list option" where
  "FAILINGAPP_API cfg =
     (case line_step linkage_block (start cfg) of
        Inl e \<Rightarrow> None
      | Inr s \<Rightarrow> map_of (macros s) ''FAILINGAPP_API'')"

text \<open>The flag of the build: is \<^verbatim>\<open>FAILINGAPP_EXPORTS\<close> defined?\<close>

definition FAILINGAPP_EXPORTS :: "macros \<Rightarrow> bool" where
  "FAILINGAPP_EXPORTS cfg = (map_of cfg ''FAILINGAPP_EXPORTS'' \<noteq> None)"

text \<open>The attribute the conditional block selects for a build configuration.\<close>

definition selected :: "macros \<Rightarrow> token list" where
  "selected cfg = declspec (if FAILINGAPP_EXPORTS cfg then ''dllexport'' else ''dllimport'')"

text \<open>Two build configurations: the library's own, and a consumer's.\<close>

definition library_build :: macros where
  "library_build = [(''FAILINGAPP_EXPORTS'', [''1''])]"

definition consumer_build :: macros where
  "consumer_build = []"

text \<open>
  Two configurations that bind a token of the header itself: one turns the exported
  attribute into the imported one, the other renames the variable.
\<close>

definition swapped_build :: macros where
  "swapped_build = [(''FAILINGAPP_EXPORTS'', [''1'']), (''dllexport'', [''dllimport''])]"

definition renaming_build :: macros where
  "renaming_build = [(''nFailingApp'', [''counter''])]"


section \<open>What the header declares\<close>

fun declared :: "directive \<Rightarrow> string decl list" where
  "declared (Declare d) = [d]"
| "declared _ = []"

fun declarations :: "line list \<Rightarrow> string decl list" where
  "declarations [] = []"
| "declarations (Ifdef m yes no # ls) =
     concat (map declared yes) @ concat (map declared no) @ declarations ls"
| "declarations (Plain d # ls) = declared d @ declarations ls"

fun is_field :: "member \<Rightarrow> bool" where
  "is_field (Field t n) = True"
| "is_field _ = False"

fun is_constructor :: "member \<Rightarrow> bool" where
  "is_constructor (Constructor ps b) = True"
| "is_constructor _ = False"

fun is_destructor :: "member \<Rightarrow> bool" where
  "is_destructor (Destructor b) = True"
| "is_destructor _ = False"

fun is_method :: "member \<Rightarrow> bool" where
  "is_method (Method t n ps b) = True"
| "is_method _ = False"

fun member_body :: "member \<Rightarrow> token list option" where
  "member_body (Constructor ps b) = b"
| "member_body (Destructor b) = b"
| "member_body (Field t n) = None"
| "member_body (Method t n ps b) = b"

fun is_variable :: "'a decl \<Rightarrow> bool" where
  "is_variable (Var_decl a n e c t i) = True"
| "is_variable _ = False"

text \<open>
  Does a declaration define storage or a body? A variable is defined unless it is
  \<^verbatim>\<open>extern\<close> without an initialiser; a function is defined when it has a body; a
  class defines something when one of its members has a body.
\<close>

fun is_definition :: "'a decl \<Rightarrow> bool" where
  "is_definition (Class_decl a n ms) = list_ex (\<lambda>(acc, m). member_body m \<noteq> None) ms"
| "is_definition (Var_decl a n e c t i) = (\<not> e \<or> i \<noteq> None)"
| "is_definition (Fun_decl a n t ps b) = (b \<noteq> None)"

text \<open>The objects and functions a declaration names and leaves to be defined elsewhere.\<close>

fun member_pending :: "string \<Rightarrow> member \<Rightarrow> string list" where
  "member_pending c (Constructor ps b) = (if b = None then [c @ ''::'' @ c] else [])"
| "member_pending c (Destructor b) = (if b = None then [c @ ''::~'' @ c] else [])"
| "member_pending c (Field t n) = []"
| "member_pending c (Method t n ps b) = (if b = None then [c @ ''::'' @ n] else [])"

fun pending :: "'a decl \<Rightarrow> string list" where
  "pending (Class_decl a n ms) = concat (map (\<lambda>(acc, m). member_pending n m) ms)"
| "pending (Var_decl a n e c t i) = (if e \<and> i = None then [n] else [])"
| "pending (Fun_decl a n t ps b) = (if b = None then [n] else [])"

text \<open>
  The tokens of lines 8 to 22 other than the linkage macro itself: those of the two
  replacement lists and of the three declarations. A plain build configuration binds
  none of them, so that macro replacement touches the declarations at the linkage macro
  only.
\<close>

definition header_tokens :: "token list" where
  "header_tokens =
     filter (\<lambda>t. t \<noteq> ''FAILINGAPP_API'')
       (declspec ''dllexport'' @ declspec ''dllimport'' @
        concat (map source (declarations FailingApp_h)))"

definition plain_build :: "macros \<Rightarrow> bool" where
  "plain_build cfg = list_all (\<lambda>t. map_of cfg t = None) header_tokens"


section \<open>The linkage macro\<close>

lemma linkage_block_step:
  "line_step linkage_block (start cfg) =
     Inr \<lparr>macros = (''FAILINGAPP_API'', selected cfg) # drop_macro ''FAILINGAPP_API'' cfg,
          emitted = []\<rparr>"
  by (simp add: linkage_block_def start_def FAILINGAPP_EXPORTS_def selected_def)

lemma FAILINGAPP_API_eq: "FAILINGAPP_API cfg = Some (selected cfg)"
  by (simp add: FAILINGAPP_API_def linkage_block_step)

lemma library_build_flag: "FAILINGAPP_EXPORTS library_build"
  by (simp add: FAILINGAPP_EXPORTS_def library_build_def)

lemma consumer_build_flag: "\<not> FAILINGAPP_EXPORTS consumer_build"
  by (simp add: FAILINGAPP_EXPORTS_def consumer_build_def)

text \<open>
  Claim C1. The macro \<^verbatim>\<open>FAILINGAPP_API\<close> is decided by the flag
  \<^verbatim>\<open>FAILINGAPP_EXPORTS\<close> alone: in every build configuration where the flag is
  defined the macro is bound to \<^verbatim>\<open>__declspec(dllexport)\<close>, in every configuration
  where it is not defined the macro is bound to \<^verbatim>\<open>__declspec(dllimport)\<close>, and it is
  always bound to one of the two.
\<close>

theorem FAILINGAPP_API_by_flag:
  "(FAILINGAPP_EXPORTS cfg \<longrightarrow> FAILINGAPP_API cfg = Some (declspec ''dllexport'')) \<and>
   (\<not> FAILINGAPP_EXPORTS cfg \<longrightarrow> FAILINGAPP_API cfg = Some (declspec ''dllimport'')) \<and>
   (FAILINGAPP_API cfg = Some (declspec ''dllexport'') \<or>
    FAILINGAPP_API cfg = Some (declspec ''dllimport''))"
  by (simp add: FAILINGAPP_API_eq selected_def)

theorem FAILINGAPP_API_by_flag_witness:
  "FAILINGAPP_EXPORTS library_build \<and>
   FAILINGAPP_API library_build = Some [''__declspec'', ''('', ''dllexport'', '')''] \<and>
   \<not> FAILINGAPP_EXPORTS consumer_build \<and>
   FAILINGAPP_API consumer_build = Some [''__declspec'', ''('', ''dllimport'', '')'']"
  using FAILINGAPP_API_by_flag [of library_build] FAILINGAPP_API_by_flag [of consumer_build]
    library_build_flag consumer_build_flag
  by (simp add: declspec_def)


section \<open>The preprocessed header\<close>

lemma declarations_eq: "declarations FailingApp_h = [CFailingApp, nFailingApp, fnFailingApp]"
  by (simp add: FailingApp_h_def linkage_block_def)

lemma source_CFailingApp:
  "source CFailingApp =
     [''class'', ''FAILINGAPP_API'', ''CFailingApp'', ''{'', ''public'', '':'',
      ''CFailingApp'', ''('', ''void'', '')'', '';'', ''}'', '';'']"
  by (simp add: source_def CFailingApp_def)

lemma source_nFailingApp:
  "source nFailingApp = [''extern'', ''FAILINGAPP_API'', ''int'', ''nFailingApp'', '';'']"
  by (simp add: source_def nFailingApp_def)

lemma source_fnFailingApp:
  "source fnFailingApp =
     [''FAILINGAPP_API'', ''int'', ''fnFailingApp'', ''('', ''void'', '')'', '';'']"
  by (simp add: source_def fnFailingApp_def)

lemmas source_lines = source_CFailingApp source_nFailingApp source_fnFailingApp

text \<open>On every build configuration: one table for all three declarations.\<close>

lemma preprocess_eq:
  "preprocess cfg =
     Inr \<lparr>macros = (''FAILINGAPP_API'', selected cfg) # drop_macro ''FAILINGAPP_API'' cfg,
          emitted =
            map (expand ((''FAILINGAPP_API'', selected cfg) # drop_macro ''FAILINGAPP_API'' cfg))
              [source CFailingApp, source nFailingApp, source fnFailingApp]\<rparr>"
  by (simp add: preprocess_def FailingApp_h_def linkage_block_step)

lemma map_of_drop_macro:
  "map_of (drop_macro m ms) t = (if t = m then None else map_of ms t)"
  by (induction ms) (auto simp add: drop_macro_def)

lemma expand_unbound:
  "list_all (\<lambda>t. map_of ms t = None) ts \<Longrightarrow> expand ms ts = ts"
  by (induction ts) simp_all

lemma plain_build_unbound:
  assumes "plain_build cfg"
  shows "map_of cfg ''__declspec'' = None" "map_of cfg ''('' = None"
    "map_of cfg '')'' = None" "map_of cfg ''dllexport'' = None"
    "map_of cfg ''dllimport'' = None" "map_of cfg ''class'' = None"
    "map_of cfg ''CFailingApp'' = None" "map_of cfg ''{'' = None"
    "map_of cfg ''public'' = None" "map_of cfg '':'' = None"
    "map_of cfg ''void'' = None" "map_of cfg '';'' = None" "map_of cfg ''}'' = None"
    "map_of cfg ''extern'' = None" "map_of cfg ''int'' = None"
    "map_of cfg ''nFailingApp'' = None" "map_of cfg ''fnFailingApp'' = None"
  using assms
  by (simp_all add: plain_build_def header_tokens_def declarations_eq source_lines
      declspec_def)

lemma expand_selected:
  assumes "plain_build cfg"
  shows "expand (drop_macro ''FAILINGAPP_API''
           ((''FAILINGAPP_API'', selected cfg) # drop_macro ''FAILINGAPP_API'' cfg))
           (selected cfg) = selected cfg"
  by (rule expand_unbound)
    (simp add: selected_def declspec_def map_of_drop_macro plain_build_unbound [OF assms])

text \<open>In a plain build configuration only the linkage macro is replaced.\<close>

lemma preprocess_plain:
  assumes "plain_build cfg"
  shows "preprocess cfg =
     Inr \<lparr>macros = (''FAILINGAPP_API'', selected cfg) # drop_macro ''FAILINGAPP_API'' cfg,
          emitted =
            [[''class''] @ selected cfg @
               [''CFailingApp'', ''{'', ''public'', '':'', ''CFailingApp'', ''('', ''void'',
                '')'', '';'', ''}'', '';''],
             [''extern''] @ selected cfg @ [''int'', ''nFailingApp'', '';''],
             selected cfg @ [''int'', ''fnFailingApp'', ''('', ''void'', '')'', '';'']]\<rparr>"
  by (simp add: preprocess_eq source_lines map_of_drop_macro expand_selected [OF assms]
      plain_build_unbound [OF assms])

lemma plain_library_build: "plain_build library_build"
  by (simp add: plain_build_def header_tokens_def declarations_eq source_lines
      declspec_def library_build_def)

lemma plain_consumer_build: "plain_build consumer_build"
  by (simp add: plain_build_def header_tokens_def declarations_eq source_lines
      declspec_def consumer_build_def)

text \<open>
  Replacement reaches every token and scans replacement lists again: a configuration that
  binds \<^verbatim>\<open>dllexport\<close> changes the attribute of all three lines, and one that binds
  \<^verbatim>\<open>nFailingApp\<close> renames the variable. Neither configuration is plain.
\<close>

lemma preprocess_swapped_build:
  "preprocess swapped_build =
     Inr \<lparr>macros =
            [(''FAILINGAPP_API'', [''__declspec'', ''('', ''dllexport'', '')'']),
             (''FAILINGAPP_EXPORTS'', [''1'']), (''dllexport'', [''dllimport''])],
          emitted =
            [[''class'', ''__declspec'', ''('', ''dllimport'', '')'', ''CFailingApp'', ''{'',
              ''public'', '':'', ''CFailingApp'', ''('', ''void'', '')'', '';'', ''}'', '';''],
             [''extern'', ''__declspec'', ''('', ''dllimport'', '')'', ''int'',
              ''nFailingApp'', '';''],
             [''__declspec'', ''('', ''dllimport'', '')'', ''int'', ''fnFailingApp'', ''('',
              ''void'', '')'', '';'']]\<rparr>"
  by (simp add: preprocess_eq source_lines selected_def declspec_def FAILINGAPP_EXPORTS_def
      swapped_build_def drop_macro_def)

lemma preprocess_renaming_build:
  "preprocess renaming_build =
     Inr \<lparr>macros =
            [(''FAILINGAPP_API'', [''__declspec'', ''('', ''dllimport'', '')'']),
             (''nFailingApp'', [''counter''])],
          emitted =
            [[''class'', ''__declspec'', ''('', ''dllimport'', '')'', ''CFailingApp'', ''{'',
              ''public'', '':'', ''CFailingApp'', ''('', ''void'', '')'', '';'', ''}'', '';''],
             [''extern'', ''__declspec'', ''('', ''dllimport'', '')'', ''int'', ''counter'',
              '';''],
             [''__declspec'', ''('', ''dllimport'', '')'', ''int'', ''fnFailingApp'', ''('',
              ''void'', '')'', '';'']]\<rparr>"
  by (simp add: preprocess_eq source_lines selected_def declspec_def FAILINGAPP_EXPORTS_def
      renaming_build_def drop_macro_def)

lemma not_plain_swapped_build: "\<not> plain_build swapped_build"
  by (simp add: plain_build_def header_tokens_def declspec_def swapped_build_def)

lemma not_plain_renaming_build: "\<not> plain_build renaming_build"
  by (simp add: plain_build_def header_tokens_def declarations_eq source_lines declspec_def
      renaming_build_def)

text \<open>
  Claim C2. Each of the three declarations of the header carries the macro
  \<^verbatim>\<open>FAILINGAPP_API\<close> and nothing else in its attribute position. In every build
  configuration the three lines are put out under one and the same macro table, in which
  the macro has the binding the conditional block selected. In a plain configuration the
  lines put out are the three declarations \<^verbatim>\<open>CFailingApp\<close>, \<^verbatim>\<open>nFailingApp\<close> and
  \<^verbatim>\<open>fnFailingApp\<close>, each with that one attribute: no symbol has a linkage mode of its
  own.
\<close>

theorem linkage_uniform:
  "(\<forall>d \<in> set (declarations FailingApp_h). decl_attr d = ''FAILINGAPP_API'') \<and>
   map decl_name (declarations FailingApp_h) =
     [''CFailingApp'', ''nFailingApp'', ''fnFailingApp''] \<and>
   (\<exists>s. preprocess cfg = Inr s \<and>
        map_of (macros s) ''FAILINGAPP_API'' = FAILINGAPP_API cfg \<and>
        emitted s = map (\<lambda>d. expand (macros s) (source d)) (declarations FailingApp_h)) \<and>
   (plain_build cfg \<longrightarrow>
      (\<exists>s a. preprocess cfg = Inr s \<and> FAILINGAPP_API cfg = Some a \<and>
          emitted s = map (\<lambda>d. render (map_decl (\<lambda>m. a) d)) (declarations FailingApp_h)))"
proof (intro conjI impI)
  show "\<forall>d \<in> set (declarations FailingApp_h). decl_attr d = ''FAILINGAPP_API''"
    by (simp add: declarations_eq CFailingApp_def nFailingApp_def fnFailingApp_def)
  show "map decl_name (declarations FailingApp_h) =
      [''CFailingApp'', ''nFailingApp'', ''fnFailingApp'']"
    by (simp add: declarations_eq CFailingApp_def nFailingApp_def fnFailingApp_def)
  show "\<exists>s. preprocess cfg = Inr s \<and>
        map_of (macros s) ''FAILINGAPP_API'' = FAILINGAPP_API cfg \<and>
        emitted s = map (\<lambda>d. expand (macros s) (source d)) (declarations FailingApp_h)"
    by (simp add: preprocess_eq declarations_eq FAILINGAPP_API_eq)
next
  assume "plain_build cfg"
  then show "\<exists>s a. preprocess cfg = Inr s \<and> FAILINGAPP_API cfg = Some a \<and>
      emitted s = map (\<lambda>d. render (map_decl (\<lambda>m. a) d)) (declarations FailingApp_h)"
    by (simp add: preprocess_plain declarations_eq FAILINGAPP_API_eq CFailingApp_def
        nFailingApp_def fnFailingApp_def)
qed

theorem linkage_uniform_witness:
  "plain_build consumer_build \<and>
   (\<exists>s. preprocess consumer_build = Inr s \<and>
        emitted s =
          [[''class'', ''__declspec'', ''('', ''dllimport'', '')'', ''CFailingApp'', ''{'',
            ''public'', '':'', ''CFailingApp'', ''('', ''void'', '')'', '';'', ''}'', '';''],
           [''extern'', ''__declspec'', ''('', ''dllimport'', '')'', ''int'',
            ''nFailingApp'', '';''],
           [''__declspec'', ''('', ''dllimport'', '')'', ''int'', ''fnFailingApp'', ''('',
            ''void'', '')'', '';'']])"
  using linkage_uniform [of consumer_build] plain_consumer_build consumer_build_flag
  by (simp add: preprocess_plain selected_def declspec_def)

text \<open>
  Claim C6. The class \<^verbatim>\<open>CFailingApp\<close> has one member, the public declaration of a
  constructor with no parameters. It has no data member, so an instance has no state in
  which a resource could be held or which an invariant could constrain; it declares no
  destructor and no method. Written out, the class is the tokens of lines 14 to 18, and
  in a plain build configuration the preprocessor puts out this class with the selected
  attribute.
\<close>

theorem CFailingApp_is_empty:
  "members CFailingApp = [(Public, Constructor [] None)] \<and>
   filter (\<lambda>(acc, m). is_constructor m) (members CFailingApp) =
     [(Public, Constructor [] None)] \<and>
   filter (\<lambda>(acc, m). is_field m) (members CFailingApp) = [] \<and>
   filter (\<lambda>(acc, m). is_destructor m) (members CFailingApp) = [] \<and>
   filter (\<lambda>(acc, m). is_method m) (members CFailingApp) = [] \<and>
   source CFailingApp =
     [''class'', ''FAILINGAPP_API'', ''CFailingApp'', ''{'', ''public'', '':'',
      ''CFailingApp'', ''('', ''void'', '')'', '';'', ''}'', '';''] \<and>
   (plain_build cfg \<longrightarrow>
      (\<exists>s. preprocess cfg = Inr s \<and>
           emitted s ! 0 =
             render (Class_decl (selected cfg) ''CFailingApp''
               [(Public, Constructor [] None)])))"
  by (simp add: source_CFailingApp preprocess_plain) (simp add: CFailingApp_def)

theorem CFailingApp_is_empty_witness:
  "plain_build library_build \<and>
   (\<exists>s. preprocess library_build = Inr s \<and>
        emitted s ! 0 =
          [''class'', ''__declspec'', ''('', ''dllexport'', '')'', ''CFailingApp'', ''{'',
           ''public'', '':'', ''CFailingApp'', ''('', ''void'', '')'', '';'', ''}'', '';''])"
  using CFailingApp_is_empty [of library_build] plain_library_build library_build_flag
  by (simp add: selected_def declspec_def)

text \<open>
  Claim C7. The function \<^verbatim>\<open>fnFailingApp\<close> is declared with an empty parameter list
  and the return type \<^verbatim>\<open>int\<close>: written out, it is the tokens of line 22, and in a
  plain build configuration the preprocessor puts out this prototype with the selected
  attribute.
\<close>

theorem fnFailingApp_signature:
  "params fnFailingApp = [] \<and> return_type fnFailingApp = T_int \<and>
   decl_name fnFailingApp = ''fnFailingApp'' \<and>
   source fnFailingApp =
     [''FAILINGAPP_API'', ''int'', ''fnFailingApp'', ''('', ''void'', '')'', '';''] \<and>
   (plain_build cfg \<longrightarrow>
      (\<exists>s. preprocess cfg = Inr s \<and>
           emitted s ! 2 =
             render (Fun_decl (selected cfg) ''fnFailingApp'' T_int [] None)))"
  by (simp add: source_fnFailingApp preprocess_plain) (simp add: fnFailingApp_def)

theorem fnFailingApp_signature_witness:
  "plain_build consumer_build \<and>
   (\<exists>s. preprocess consumer_build = Inr s \<and>
        emitted s ! 2 =
          [''__declspec'', ''('', ''dllimport'', '')'', ''int'', ''fnFailingApp'', ''('',
           ''void'', '')'', '';''])"
  using fnFailingApp_signature [of consumer_build] plain_consumer_build consumer_build_flag
  by (simp add: selected_def declspec_def)

text \<open>
  Claim C8. The header declares exactly one variable, \<^verbatim>\<open>nFailingApp\<close>: an
  \<^verbatim>\<open>int\<close> at namespace scope that is not \<^verbatim>\<open>const\<close>, declared \<^verbatim>\<open>extern\<close> and
  carrying the linkage macro. Written out, it is the tokens of line 20, and in a plain
  build configuration the preprocessor puts out this declaration with the selected
  attribute, so that a consumer refers to the variable by name with the imported
  attribute and the library with the exported one.
\<close>

theorem nFailingApp_only_variable:
  "filter is_variable (declarations FailingApp_h) = [nFailingApp] \<and>
   decl_name nFailingApp = ''nFailingApp'' \<and> var_type nFailingApp = T_int \<and>
   \<not> is_const nFailingApp \<and> is_extern nFailingApp \<and>
   decl_attr nFailingApp = ''FAILINGAPP_API'' \<and>
   source nFailingApp = [''extern'', ''FAILINGAPP_API'', ''int'', ''nFailingApp'', '';''] \<and>
   (plain_build cfg \<longrightarrow>
      (\<exists>s. preprocess cfg = Inr s \<and>
           emitted s ! 1 =
             render (Var_decl (selected cfg) ''nFailingApp'' True False T_int None)))"
  by (simp add: source_nFailingApp preprocess_plain declarations_eq)
    (simp add: CFailingApp_def nFailingApp_def fnFailingApp_def)

theorem nFailingApp_only_variable_witness:
  "plain_build consumer_build \<and>
   (\<exists>s. preprocess consumer_build = Inr s \<and>
        emitted s ! 1 =
          [''extern'', ''__declspec'', ''('', ''dllimport'', '')'', ''int'', ''nFailingApp'',
           '';''])"
  using nFailingApp_only_variable [of consumer_build] plain_consumer_build
    consumer_build_flag
  by (simp add: selected_def declspec_def)

lemma prefix_keeps_macro:
  assumes "1 \<le> n"
  shows "\<exists>s. lines (take n FailingApp_h) (start cfg) = Inr s \<and>
             map_of (macros s) ''FAILINGAPP_API'' = FAILINGAPP_API cfg"
proof -
  consider "n = 1" | "n = 2" | "n = 3" | "4 \<le> n" using assms by linarith
  then show ?thesis
  proof cases
    case 1
    then show ?thesis
      by (simp add: FailingApp_h_def linkage_block_step FAILINGAPP_API_eq)
  next
    case 2
    then show ?thesis
      by (simp add: FailingApp_h_def linkage_block_step FAILINGAPP_API_eq eval_nat_numeral)
  next
    case 3
    then show ?thesis
      by (simp add: FailingApp_h_def linkage_block_step FAILINGAPP_API_eq eval_nat_numeral)
  next
    case 4
    then have "take n FailingApp_h = FailingApp_h" by (simp add: FailingApp_h_def)
    then show ?thesis
      using preprocess_eq [of cfg] by (simp add: preprocess_def FAILINGAPP_API_eq)
  qed
qed

text \<open>
  Claim C9. Selecting the linkage mode cannot fail and is not undone: in every build
  configuration the preprocessor passes the conditional block without an error, and the
  rest of the header as well, and after the block and after every later line of the
  header the macro \<^verbatim>\<open>FAILINGAPP_API\<close> is bound to the replacement list the block
  selected.
\<close>

theorem selection_never_fails_and_stays:
  "(\<exists>s. line_step linkage_block (start cfg) = Inr s) \<and>
   (\<exists>s. preprocess cfg = Inr s) \<and>
   (\<forall>n. 1 \<le> n \<longrightarrow>
      (\<exists>s. lines (take n FailingApp_h) (start cfg) = Inr s \<and>
           map_of (macros s) ''FAILINGAPP_API'' = FAILINGAPP_API cfg))"
  using prefix_keeps_macro [of _ cfg] by (simp add: linkage_block_step preprocess_eq)

theorem selection_never_fails_and_stays_witness:
  "(1::nat) \<le> 3 \<and>
   (\<exists>s. lines (take 3 FailingApp_h) (start library_build) = Inr s \<and>
        map_of (macros s) ''FAILINGAPP_API'' =
          Some [''__declspec'', ''('', ''dllexport'', '')''])"
  using selection_never_fails_and_stays [of library_build] library_build_flag
  by (simp add: FAILINGAPP_API_eq selected_def declspec_def)

text \<open>
  Claim C10. The header only declares: no declaration in it defines storage or a body
  (the constructor has no body, the variable is \<^verbatim>\<open>extern\<close> with no initialiser, the
  function is a prototype), and the constructor, the variable and the function are each
  left to be defined elsewhere. In a plain build configuration the lines the preprocessor
  puts out are these three declarations with the selected attribute, none of them a
  definition.
\<close>

theorem header_only_declares:
  "filter is_definition (declarations FailingApp_h) = [] \<and>
   concat (map pending (declarations FailingApp_h)) =
     [''CFailingApp::CFailingApp'', ''nFailingApp'', ''fnFailingApp''] \<and>
   (plain_build cfg \<longrightarrow>
      (\<exists>s. preprocess cfg = Inr s \<and>
           emitted s =
             map render (map (map_decl (\<lambda>m. selected cfg)) (declarations FailingApp_h)) \<and>
           filter is_definition
             (map (map_decl (\<lambda>m. selected cfg)) (declarations FailingApp_h)) = []))"
  by (simp add: declarations_eq preprocess_plain)
    (simp add: CFailingApp_def nFailingApp_def fnFailingApp_def)

theorem header_only_declares_witness:
  "plain_build library_build \<and>
   (\<exists>s. preprocess library_build = Inr s \<and>
        emitted s =
          map render
            [Class_decl [''__declspec'', ''('', ''dllexport'', '')''] ''CFailingApp''
               [(Public, Constructor [] None)],
             Var_decl [''__declspec'', ''('', ''dllexport'', '')''] ''nFailingApp'' True False
               T_int None,
             Fun_decl [''__declspec'', ''('', ''dllexport'', '')''] ''fnFailingApp'' T_int []
               None])"
  using header_only_declares [of library_build] plain_library_build library_build_flag
  by (simp add: declarations_eq selected_def declspec_def CFailingApp_def nFailingApp_def
      fnFailingApp_def)

end
